theory Spec2Isabelle
  imports Complex_Main "HOL-Library.AList"
begin

section \<open>The SENSEX forecasting script (app.py)\<close>

text \<open>
  The script is one linear pass: fetch a table of daily prices, normalise its column
  names, add six derived columns, drop the rows with a missing feature, take the last
  row, hand it to three models and decode their answers. Each step is a function here;
  \<open>st.error(...)\<close> followed by \<open>st.stop()\<close> is an error value, and so is an
  exception that no handler of the script catches.
\<close>

subsection \<open>Cell values\<close>

text \<open>
  A cell of a numeric column is a float64. The model keeps the three special values
  apart. The elementwise arithmetic of lines 41, 42 and 44 is computed on the finite
  values in the reals: its rounding, its overflow to infinity and the sign of zero are
  not modelled (none of them turns a number into NaN or NaN into a number). The rolling
  aggregates of lines 39, 40 and 43 are not computed in the reals, see below.
\<close>

datatype fval = NaN | NInf | PInf | Fin real

definition isna :: "fval \<Rightarrow> bool" where
  \<comment> \<open>what pandas counts as missing: NaN only, infinities are values\<close>
  "isna v = (v = NaN)"


fun fneg :: "fval \<Rightarrow> fval" where
  "fneg NaN = NaN"
| "fneg NInf = PInf"
| "fneg PInf = NInf"
| "fneg (Fin x) = Fin (- x)"

fun fsub :: "fval \<Rightarrow> fval \<Rightarrow> fval" where
  "fsub (Fin x) (Fin y) = Fin (x - y)"
| "fsub NaN b = NaN"
| "fsub a NaN = NaN"
| "fsub PInf PInf = NaN"
| "fsub NInf NInf = NaN"
| "fsub PInf b = PInf"
| "fsub NInf b = NInf"
| "fsub (Fin x) b = fneg b"

fun fsign :: "fval \<Rightarrow> fval \<Rightarrow> fval" where
  \<comment> \<open>the infinity with the sign of \<open>x\<close>, for an \<open>x\<close> that is not zero\<close>
  "fsign (Fin x) v = (if 0 < x then v else fneg v)"
| "fsign PInf v = v"
| "fsign NInf v = fneg v"
| "fsign NaN v = NaN"

fun fdiv :: "fval \<Rightarrow> fval \<Rightarrow> fval" where
  \<comment> \<open>numpy's float division: no exception, \<open>x / 0\<close> is an infinity and \<open>0 / 0\<close> is NaN\<close>
  "fdiv (Fin x) (Fin y) =
     (if y = 0 then (if x = 0 then NaN else fsign (Fin x) PInf) else Fin (x / y))"
| "fdiv NaN b = NaN"
| "fdiv a NaN = NaN"
| "fdiv (Fin x) b = Fin 0"
| "fdiv a (Fin y) = (if y < 0 then fneg a else a)"
| "fdiv a b = NaN"

fun fmul :: "fval \<Rightarrow> fval \<Rightarrow> fval" where
  "fmul (Fin x) (Fin y) = Fin (x * y)"
| "fmul NaN b = NaN"
| "fmul a NaN = NaN"
| "fmul (Fin x) b = (if x = 0 then NaN else fsign (Fin x) b)"
| "fmul a (Fin y) = (if y = 0 then NaN else fsign (Fin y) a)"
| "fmul a b = fsign a b"

subsection \<open>Decoding the predictions (lines 80 to 82)\<close>

text \<open>
  The labels start with an emoji; a string is a list of bytes here, so an emoji is written
  as the bytes of its UTF-8 encoding.
\<close>

definition up_label :: string where
  "up_label = [CHR 0xF0, CHR 0x9F, CHR 0x93, CHR 0x88] @ '' Up''"

definition down_label :: string where
  "down_label = [CHR 0xF0, CHR 0x9F, CHR 0x93, CHR 0x89] @ '' Down''"

definition sell_label :: string where
  "sell_label = [CHR 0xF0, CHR 0x9F, CHR 0x94, CHR 0xBB] @ '' SELL''"

definition hold_label :: string where
  "hold_label = [CHR 0xE2, CHR 0x8F, CHR 0xB8] @ '' HOLD''"

definition buy_label :: string where
  "buy_label = [CHR 0xF0, CHR 0x9F, CHR 0x94, CHR 0xBA] @ '' BUY''"

definition direction_text :: "int \<Rightarrow> string" where
  \<comment> \<open>line 80: a conditional expression, every code but 1 takes the else branch\<close>
  "direction_text pred_direction = (if pred_direction = 1 then up_label else down_label)"

definition signal_map :: "int \<rightharpoonup> string" where
  "signal_map = [0 \<mapsto> sell_label, 1 \<mapsto> hold_label, 2 \<mapsto> buy_label]"

definition signal_text :: "int \<Rightarrow> string" where
  \<comment> \<open>line 82: \<open>dict.get\<close> with the default \<open>Unknown\<close>\<close>
  "signal_text pred_signal =
     (case signal_map pred_signal of Some label \<Rightarrow> label | None \<Rightarrow> ''Unknown'')"

subsection \<open>Column names (lines 31 to 35)\<close>

text \<open>
  The provider's table has a date index, which \<open>reset_index\<close> turns into the column
  \<open>Date\<close>, and numeric columns under headers that are strings or, for a multi-level
  header, tuples of strings (never empty). The provider names its index Date. Names are
  ASCII: a byte from 128 on is neither white space nor a letter here. A frame in which
  two columns carry the same name after normalisation is outside the model (pandas then
  selects a sub-frame, not a column); the properties below ask for distinct names.
\<close>

type_synonym date = int

datatype header = Plain string | Tuple string "string list"

record table =
  index :: "date list"
  data :: "(header \<times> fval list) list"

record frame =
  Date :: "date list"
  columns :: "(string \<times> fval list) list"

definition table_empty :: "table \<Rightarrow> bool" where
  \<comment> \<open>\<open>df.empty\<close> on line 27: no row or no column\<close>
  "table_empty t = (index t = [] \<or> data t = [])"

fun first_level :: "header \<Rightarrow> string" where
  \<comment> \<open>line 34: \<open>col[0] if isinstance(col, tuple) else col\<close>\<close>
  "first_level (Tuple c rest) = c"
| "first_level (Plain c) = c"

definition is_space :: "char \<Rightarrow> bool" where
  "is_space c = ((of_char c :: nat) \<in> {9, 10, 11, 12, 13, 28, 29, 30, 31, 32})"

definition is_lower :: "char \<Rightarrow> bool" where
  "is_lower c = (97 \<le> (of_char c :: nat) \<and> (of_char c :: nat) \<le> 122)"

definition is_upper :: "char \<Rightarrow> bool" where
  "is_upper c = (65 \<le> (of_char c :: nat) \<and> (of_char c :: nat) \<le> 90)"

definition to_upper :: "char \<Rightarrow> char" where
  "to_upper c = (if is_lower c then char_of ((of_char c :: nat) - 32) else c)"

definition to_lower :: "char \<Rightarrow> char" where
  "to_lower c = (if is_upper c then char_of ((of_char c :: nat) + 32) else c)"

definition strip :: "string \<Rightarrow> string" where
  \<comment> \<open>\<open>str.strip()\<close>: white space off both ends\<close>
  "strip s = rev (dropWhile is_space (rev (dropWhile is_space s)))"

fun title_from :: "bool \<Rightarrow> string \<Rightarrow> string" where
  \<comment> \<open>\<open>str.title()\<close>: a letter after a letter is lowered, any other letter is raised\<close>
  "title_from previous_is_cased [] = []"
| "title_from previous_is_cased (c # cs) =
     (if previous_is_cased then to_lower c else to_upper c)
       # title_from (is_lower c \<or> is_upper c) cs"

definition title :: "string \<Rightarrow> string" where
  "title s = title_from False s"

definition normalise_name :: "header \<Rightarrow> string" where
  \<comment> \<open>lines 34 and 35 for one column\<close>
  "normalise_name col = title (strip (first_level col))"

definition reset_and_normalise :: "table \<Rightarrow> frame" where
  \<comment> \<open>lines 31 to 35: the index becomes the column \<open>Date\<close>, every header is normalised\<close>
  "reset_and_normalise t =
     \<lparr>Date = index t, columns = map (\<lambda>(col, xs). (normalise_name col, xs)) (data t)\<rparr>"

subsection \<open>Errors\<close>

datatype error =
    ProviderError                    \<comment> \<open>line 28, could not fetch data\<close>
  | SchemaError "string list"        \<comment> \<open>line 56, missing columns\<close>
  | InsufficientDataError            \<comment> \<open>line 62, not enough recent data\<close>
  | InferenceError string            \<comment> \<open>line 75, error during prediction\<close>
  | UncaughtKeyError "string list"   \<comment> \<open>a KeyError that no handler catches\<close>
  | UncaughtIndexError               \<comment> \<open>an IndexError that no handler catches\<close>

definition and_then :: "'e + 'a \<Rightarrow> ('a \<Rightarrow> 'e + 'b) \<Rightarrow> 'e + 'b" where
  "and_then m f = (case m of Inl e \<Rightarrow> Inl e | Inr x \<Rightarrow> f x)"

definition getitem :: "frame \<Rightarrow> string \<Rightarrow> error + fval list" where
  \<comment> \<open>\<open>df[name]\<close>\<close>
  "getitem df name =
     (case map_of (columns df) name of
        None \<Rightarrow> Inl (UncaughtKeyError [name])
      | Some xs \<Rightarrow> Inr xs)"

definition setitem :: "frame \<Rightarrow> string \<Rightarrow> fval list \<Rightarrow> frame" where
  \<comment> \<open>\<open>df[name] = xs\<close>: replaces the column of that name, or appends a new one\<close>
  "setitem df name xs = df\<lparr>columns := AList.update name xs (columns df)\<rparr>"

subsection \<open>Feature engineering (lines 39 to 44)\<close>

definition series_sub :: "fval list \<Rightarrow> fval list \<Rightarrow> fval list" where
  "series_sub a b = map (\<lambda>(x, y). fsub x y) (zip a b)"

definition series_div :: "fval list \<Rightarrow> fval list \<Rightarrow> fval list" where
  "series_div a b = map (\<lambda>(x, y). fdiv x y) (zip a b)"

definition series_times :: "fval list \<Rightarrow> real \<Rightarrow> fval list" where
  "series_times a k = map (\<lambda>x. fmul x (Fin k)) a"

definition trailing :: "nat \<Rightarrow> 'a list \<Rightarrow> nat \<Rightarrow> 'a list" where
  \<comment> \<open>the rows \<open>i - w + 1\<close> to \<open>i\<close>, fewer at the start of the column\<close>
  "trailing w xs i = drop (Suc i - w) (take (Suc i) xs)"

definition observations :: "fval list \<Rightarrow> real list" where
  \<comment> \<open>pandas turns infinities into NaN before a rolling aggregate and skips every NaN\<close>
  "observations win = List.map_filter (\<lambda>v. case v of Fin x \<Rightarrow> Some x | _ \<Rightarrow> None) win"

definition mean :: "real list \<Rightarrow> real" where
  "mean xs = sum_list xs / real (length xs)"

definition sample_std :: "real list \<Rightarrow> real" where
  \<comment> \<open>\<open>ddof = 1\<close>\<close>
  "sample_std xs = sqrt (sum_list (map (\<lambda>x. (x - mean xs)\<^sup>2) xs) / real (length xs - 1))"

text \<open>
  pandas computes a rolling aggregate in one pass over the column, in float64: it adds the
  row that enters the window to a running state and removes the row that leaves it, and
  counts the observations in the window. Where the count is below \<open>min_periods\<close> (the
  window, here) it writes NaN. Where the window is full it writes what the running state
  gives: the mean or standard deviation of the window up to rounding, but an infinity or
  NaN once the state has overflowed, also for later windows of small numbers. That pass
  is code of pandas, not of the script, so its result on a full window is a parameter of
  the model: \<open>roll_mean pd w xs i\<close> and \<open>roll_std pd w xs i\<close> are what the pass over
  the column \<open>xs\<close> with window \<open>w\<close> writes at row \<open>i\<close>. \<open>exact_kernels\<close> is the
  pass without rounding and overflow, which recomputes every window in the reals.
\<close>

type_synonym kernel = "nat \<Rightarrow> fval list \<Rightarrow> nat \<Rightarrow> fval"

record kernels =
  roll_mean :: kernel
  roll_std :: kernel

definition exact_kernels :: kernels where
  "exact_kernels =
     \<lparr>roll_mean = (\<lambda>w xs i. Fin (mean (observations (trailing w xs i)))),
      roll_std = (\<lambda>w xs i. Fin (sample_std (observations (trailing w xs i))))\<rparr>"

definition rolling_mean :: "kernels \<Rightarrow> nat \<Rightarrow> fval list \<Rightarrow> fval list" where
  \<comment> \<open>\<open>rolling(window=w).mean()\<close>, \<open>min_periods\<close> is the window\<close>
  "rolling_mean pd w xs =
     map (\<lambda>i. let obs = observations (trailing w xs i)
              in if w \<le> length obs then roll_mean pd w xs i else NaN) [0..<length xs]"

definition rolling_std :: "kernels \<Rightarrow> nat \<Rightarrow> fval list \<Rightarrow> fval list" where
  \<comment> \<open>\<open>rolling(window=w).std()\<close>\<close>
  "rolling_std pd w xs =
     map (\<lambda>i. let obs = observations (trailing w xs i)
              in if w \<le> length obs \<and> 1 < length obs then roll_std pd w xs i else NaN)
       [0..<length xs]"

definition feature_engineering :: "kernels \<Rightarrow> frame \<Rightarrow> error + frame" where
  "feature_engineering pd df0 =
     and_then (getitem df0 ''Close'') (\<lambda>c5.
     let df1 = setitem df0 ''Sma_5'' (rolling_mean pd 5 c5) in
     and_then (getitem df1 ''Close'') (\<lambda>c10.
     let df2 = setitem df1 ''Sma_10'' (rolling_mean pd 10 c10) in
     and_then (getitem df2 ''High'') (\<lambda>hi.
     and_then (getitem df2 ''Low'') (\<lambda>lo.
     let df3 = setitem df2 ''Price_Range'' (series_sub hi lo) in
     and_then (getitem df3 ''Close'') (\<lambda>cl.
     and_then (getitem df3 ''Open'') (\<lambda>op.
     and_then (getitem df3 ''Open'') (\<lambda>op'.
     let df4 = setitem df3 ''Daily_Change_%''
                 (series_times (series_div (series_sub cl op) op') 100) in
     and_then (getitem df4 ''Close'') (\<lambda>cs.
     let df5 = setitem df4 ''Rolling_Std_5'' (rolling_std pd 5 cs) in
     and_then (getitem df5 ''Close'') (\<lambda>cr.
     and_then (getitem df5 ''Open'') (\<lambda>orr.
     Inr (setitem df5 ''Close/Open'' (series_div cr orr))))))))))))"

subsection \<open>Selecting the latest row (lines 47 to 67)\<close>

definition features :: "string list" where
  "features =
     [''Open'', ''High'', ''Low'', ''Volume'',
      ''Sma_5'', ''Sma_10'', ''Price_Range'',
      ''Daily_Change_%'', ''Rolling_Std_5'', ''Close/Open'']"

definition missing_in :: "frame \<Rightarrow> string list \<Rightarrow> string list" where
  "missing_in df names = filter (\<lambda>col. col \<notin> set (map fst (columns df))) names"

definition missing_cols :: "frame \<Rightarrow> string list" where
  \<comment> \<open>line 54\<close>
  "missing_cols df = missing_in df features"

definition row_has_na :: "frame \<Rightarrow> string list \<Rightarrow> nat \<Rightarrow> bool" where
  "row_has_na df names i =
     list_ex (\<lambda>name. case map_of (columns df) name of
                         Some xs \<Rightarrow> isna (xs ! i)
                       | None \<Rightarrow> False) names"

definition take_rows :: "nat list \<Rightarrow> 'a list \<Rightarrow> 'a list" where
  "take_rows keep xs = map (\<lambda>i. xs ! i) keep"

definition kept_rows :: "frame \<Rightarrow> string list \<Rightarrow> nat list" where
  "kept_rows df names = filter (\<lambda>i. \<not> row_has_na df names i) [0..<length (Date df)]"

definition dropna :: "string list \<Rightarrow> frame \<Rightarrow> error + frame" where
  \<comment> \<open>\<open>df.dropna(subset=names)\<close>: a KeyError for a name that is no column, else the
      rows with no NaN under the names of \<open>names\<close>, in their order\<close>
  "dropna names df =
     (if missing_in df names \<noteq> [] then Inl (UncaughtKeyError (missing_in df names))
      else Inr \<lparr>Date = take_rows (kept_rows df names) (Date df),
                columns = map (\<lambda>(name, xs). (name, take_rows (kept_rows df names) xs))
                            (columns df)\<rparr>)"

definition frame_empty :: "frame \<Rightarrow> bool" where
  \<comment> \<open>\<open>df.empty\<close> on line 61: the frame has columns, so it is empty when it has no row\<close>
  "frame_empty df = (Date df = [])"

definition iloc_last :: "'a list \<Rightarrow> error + 'a" where
  \<comment> \<open>\<open>.iloc[-1]\<close>\<close>
  "iloc_last xs = (if xs = [] then Inl UncaughtIndexError else Inr (last xs))"

definition latest_input_of :: "frame \<Rightarrow> error + fval list" where
  \<comment> \<open>line 66: \<open>df[features].iloc[-1]\<close>, the last row under the names of \<open>features\<close>\<close>
  "latest_input_of df =
     (if missing_in df features \<noteq> [] then Inl (UncaughtKeyError (missing_in df features))
      else if Date df = [] then Inl UncaughtIndexError
      else Inr (map last (List.map_filter (map_of (columns df)) features)))"

definition latest_date_of :: "frame \<Rightarrow> error + date" where
  \<comment> \<open>line 67, without the formatting\<close>
  "latest_date_of df = iloc_last (Date df)"

definition select_latest :: "frame \<Rightarrow> error + fval list \<times> date" where
  \<comment> \<open>lines 54 to 67\<close>
  "select_latest df =
     (if missing_cols df \<noteq> [] then Inl (SchemaError (missing_cols df))
      else and_then (dropna features df) (\<lambda>df'.
        if frame_empty df' then Inl InsufficientDataError
        else and_then (latest_input_of df') (\<lambda>latest_input.
             and_then (latest_date_of df') (\<lambda>latest_date.
             Inr (latest_input, latest_date)))))"

subsection \<open>Predictions (lines 70 to 82) and the whole run\<close>

text \<open>
  A model is a function from the feature vector to its first prediction
  (\<open>predict([latest_input])[0]\<close>), or to the message of the exception the call raises;
  the handler of line 74 catches every \<open>Exception\<close>. The codes of the two classifiers
  are integers. Loading the models (lines 12 to 18) and the display (lines 84 to 117,
  with the rounding of the predicted close) are outside the model: a run starts with the
  three models loaded and ends with the values that are displayed.
\<close>

type_synonym 'o model = "fval list \<Rightarrow> string + 'o"

record models =
  reg_model :: "fval model"
  clf_model :: "int model"
  signal_model :: "int model"

record prediction =
  pred_close :: fval
  pred_direction :: int
  pred_signal :: int

definition predict_all :: "models \<Rightarrow> fval list \<Rightarrow> error + prediction" where
  \<comment> \<open>lines 70 to 76: one \<open>try\<close> around the three calls\<close>
  "predict_all ms latest_input =
     (case reg_model ms latest_input of
        Inl e \<Rightarrow> Inl (InferenceError e)
      | Inr c \<Rightarrow>
          (case clf_model ms latest_input of
             Inl e \<Rightarrow> Inl (InferenceError e)
           | Inr d \<Rightarrow>
               (case signal_model ms latest_input of
                  Inl e \<Rightarrow> Inl (InferenceError e)
                | Inr s \<Rightarrow> Inr \<lparr>pred_close = c, pred_direction = d, pred_signal = s\<rparr>)))"

record forecast =
  latest_date :: date
  latest_input :: "fval list"
  predicted :: prediction
  direction_label :: string
  signal_label :: string

definition prepare :: "kernels \<Rightarrow> table \<Rightarrow> error + fval list \<times> date" where
  \<comment> \<open>lines 25 to 67: everything before the models are called\<close>
  "prepare pd t =
     (if table_empty t then Inl ProviderError
      else and_then (feature_engineering pd (reset_and_normalise t)) select_latest)"

definition run :: "kernels \<Rightarrow> models \<Rightarrow> table \<Rightarrow> error + forecast" where
  "run pd ms t =
     and_then (prepare pd t) (\<lambda>(v, d).
     and_then (predict_all ms v) (\<lambda>p.
     Inr \<lparr>latest_date = d, latest_input = v, predicted = p,
          direction_label = direction_text (pred_direction p),
          signal_label = signal_text (pred_signal p)\<rparr>))"

subsection \<open>Notions used to state the properties\<close>

definition wf_frame :: "frame \<Rightarrow> bool" where
  \<comment> \<open>what every pandas frame satisfies: columns as long as the frame; and what the
      model needs to agree with pandas: no name twice\<close>
  "wf_frame df =
     (list_all (\<lambda>(name, xs). length xs = length (Date df)) (columns df)
      \<and> distinct (map fst (columns df)))"

definition cell :: "frame \<Rightarrow> string \<Rightarrow> nat \<Rightarrow> fval option" where
  "cell df name i = map_option (\<lambda>xs. xs ! i) (map_of (columns df) name)"

definition feature_row :: "frame \<Rightarrow> nat \<Rightarrow> fval list" where
  \<comment> \<open>row \<open>i\<close> under the names of \<open>features\<close>, in their order\<close>
  "feature_row df i = map (\<lambda>xs. xs ! i) (List.map_filter (map_of (columns df)) features)"


definition engineered ::
  "kernels \<Rightarrow> frame \<Rightarrow> fval list \<Rightarrow> fval list \<Rightarrow> fval list \<Rightarrow> fval list \<Rightarrow> frame" where
  \<comment> \<open>the frame after lines 39 to 44, from the columns Close, High, Low and Open\<close>
  "engineered pd df0 cs hs ls os =
     setitem (setitem (setitem (setitem (setitem (setitem df0
       ''Sma_5'' (rolling_mean pd 5 cs))
       ''Sma_10'' (rolling_mean pd 10 cs))
       ''Price_Range'' (series_sub hs ls))
       ''Daily_Change_%'' (series_times (series_div (series_sub cs os) os) 100))
       ''Rolling_Std_5'' (rolling_std pd 5 cs))
       ''Close/Open'' (series_div cs os)"

subsection \<open>Example inputs\<close>

definition stub_models :: models where
  \<comment> \<open>a regressor that returns the first entry of its input, and two constant classifiers\<close>
  "stub_models =
     \<lparr>reg_model = (\<lambda>v. case v of [] \<Rightarrow> Inl ''empty input'' | x # rest \<Rightarrow> Inr x),
      clf_model = (\<lambda>v. Inr 1),
      signal_model = (\<lambda>v. Inr 2)\<rparr>"

definition failing_models :: models where
  \<comment> \<open>as \<open>stub_models\<close>, with a classifier that raises\<close>
  "failing_models = stub_models\<lparr>clf_model := (\<lambda>v. Inl ''bad input shape'')\<rparr>"

definition sample_table :: table where
  \<comment> \<open>ten trading days, every price one higher than the day before\<close>
  "sample_table =
     \<lparr>index = [1, 2, 3, 4, 5, 8, 9, 10, 11, 12],
      data =
        [(Tuple ''Close'' [''^BSESN''], map Fin [11, 12, 13, 14, 15, 16, 17, 18, 19, 20]),
         (Tuple ''High'' [''^BSESN''], map Fin [12, 13, 14, 15, 16, 17, 18, 19, 20, 21]),
         (Plain ''low'', map Fin [9, 10, 11, 12, 13, 14, 15, 16, 17, 18]),
         (Plain '' OPEN '', map Fin [10, 11, 12, 13, 14, 15, 16, 17, 18, 19]),
         (Plain ''volume'', map Fin [0, 0, 0, 0, 0, 0, 0, 0, 0, 0])]\<rparr>"

definition sample_frame :: frame where
  \<comment> \<open>\<open>sample_table\<close> after lines 31 to 35\<close>
  "sample_frame =
     \<lparr>Date = [1, 2, 3, 4, 5, 8, 9, 10, 11, 12],
      columns =
        [(''Close'', map Fin [11, 12, 13, 14, 15, 16, 17, 18, 19, 20]),
         (''High'', map Fin [12, 13, 14, 15, 16, 17, 18, 19, 20, 21]),
         (''Low'', map Fin [9, 10, 11, 12, 13, 14, 15, 16, 17, 18]),
         (''Open'', map Fin [10, 11, 12, 13, 14, 15, 16, 17, 18, 19]),
         (''Volume'', map Fin [0, 0, 0, 0, 0, 0, 0, 0, 0, 0])]\<rparr>"


definition sample_latest_input :: "fval list" where
  "sample_latest_input =
     [Fin 19, Fin 21, Fin 18, Fin 0, Fin 18, Fin (31 / 2), Fin 3,
      Fin (100 / 19), Fin (sqrt (5 / 2)), Fin (20 / 19)]"

definition gappy_frame :: frame where
  \<comment> \<open>four rows: the first lacks Sma_10, the last lacks Volume\<close>
  "gappy_frame =
     \<lparr>Date = [3, 4, 5, 8],
      columns =
        [(''Open'', [Fin 10, Fin 11, Fin 12, Fin 13]),
         (''High'', [Fin 12, Fin 13, Fin 14, Fin 15]),
         (''Low'', [Fin 9, Fin 10, Fin 11, Fin 12]),
         (''Close'', [Fin 11, Fin 12, Fin 13, Fin 14]),
         (''Volume'', [Fin 7, Fin 7, Fin 7, NaN]),
         (''Sma_5'', [Fin 9, Fin 10, Fin 11, Fin 12]),
         (''Sma_10'', [NaN, Fin 8, Fin 9, Fin 10]),
         (''Price_Range'', [Fin 3, Fin 3, Fin 3, Fin 3]),
         (''Daily_Change_%'', [Fin 10, Fin 9, Fin 8, Fin 7]),
         (''Rolling_Std_5'', [Fin 1, Fin 1, Fin 1, Fin 1]),
         (''Close/Open'', [Fin 2, Fin 2, Fin 2, Fin 2])]\<rparr>"

definition empty_table :: table where
  \<comment> \<open>what the provider returns when it has no data: the columns, and no row\<close>
  "empty_table =
     \<lparr>index = [],
      data = [(Plain ''Close'', []), (Plain ''High'', []), (Plain ''Low'', []),
              (Plain ''Open'', []), (Plain ''Volume'', [])]\<rparr>"

definition short_table :: table where
  \<comment> \<open>three trading days\<close>
  "short_table =
     \<lparr>index = [1, 2, 3],
      data =
        [(Plain ''Close'', [Fin 11, Fin 12, Fin 13]),
         (Plain ''High'', [Fin 12, Fin 13, Fin 14]),
         (Plain ''Low'', [Fin 9, Fin 10, Fin 11]),
         (Plain ''Open'', [Fin 10, Fin 11, Fin 12]),
         (Plain ''Volume'', [Fin 0, Fin 0, Fin 0])]\<rparr>"

definition short_frame :: frame where
  \<comment> \<open>\<open>short_table\<close> after lines 31 to 35\<close>
  "short_frame =
     \<lparr>Date = [1, 2, 3],
      columns =
        [(''Close'', [Fin 11, Fin 12, Fin 13]),
         (''High'', [Fin 12, Fin 13, Fin 14]),
         (''Low'', [Fin 9, Fin 10, Fin 11]),
         (''Open'', [Fin 10, Fin 11, Fin 12]),
         (''Volume'', [Fin 0, Fin 0, Fin 0])]\<rparr>"

definition zero_open_table :: table where
  \<comment> \<open>\<open>sample_table\<close> with an open of 0 on the last day\<close>
  "zero_open_table =
     \<lparr>index = [1, 2, 3, 4, 5, 8, 9, 10, 11, 12],
      data =
        [(Plain ''Close'', map Fin [11, 12, 13, 14, 15, 16, 17, 18, 19, 20]),
         (Plain ''High'', map Fin [12, 13, 14, 15, 16, 17, 18, 19, 20, 21]),
         (Plain ''Low'', map Fin [9, 10, 11, 12, 13, 14, 15, 16, 17, 18]),
         (Plain ''Open'', map Fin [10, 11, 12, 13, 14, 15, 16, 17, 18, 0]),
         (Plain ''Volume'', map Fin [0, 0, 0, 0, 0, 0, 0, 0, 0, 0])]\<rparr>"

definition zero_open_frame :: frame where
  \<comment> \<open>\<open>zero_open_table\<close> after lines 31 to 35\<close>
  "zero_open_frame =
     \<lparr>Date = [1, 2, 3, 4, 5, 8, 9, 10, 11, 12],
      columns =
        [(''Close'', map Fin [11, 12, 13, 14, 15, 16, 17, 18, 19, 20]),
         (''High'', map Fin [12, 13, 14, 15, 16, 17, 18, 19, 20, 21]),
         (''Low'', map Fin [9, 10, 11, 12, 13, 14, 15, 16, 17, 18]),
         (''Open'', map Fin [10, 11, 12, 13, 14, 15, 16, 17, 18, 0]),
         (''Volume'', map Fin [0, 0, 0, 0, 0, 0, 0, 0, 0, 0])]\<rparr>"

definition zero_open_features :: frame where
  \<comment> \<open>\<open>zero_open_frame\<close> after lines 39 to 44\<close>
  "zero_open_features =
     engineered exact_kernels zero_open_frame (map Fin [11, 12, 13, 14, 15, 16, 17, 18, 19, 20])
       (map Fin [12, 13, 14, 15, 16, 17, 18, 19, 20, 21])
       (map Fin [9, 10, 11, 12, 13, 14, 15, 16, 17, 18])
       (map Fin [10, 11, 12, 13, 14, 15, 16, 17, 18, 0])"




definition no_open_table :: table where
  \<comment> \<open>a table without the column Open\<close>
  "no_open_table =
     \<lparr>index = [1, 2],
      data =
        [(Plain ''Close'', [Fin 11, Fin 12]),
         (Plain ''High'', [Fin 12, Fin 13]),
         (Plain ''Low'', [Fin 9, Fin 10]),
         (Plain ''Volume'', [Fin 0, Fin 0])]\<rparr>"

definition no_volume_table :: table where
  \<comment> \<open>a table without the column Volume\<close>
  "no_volume_table =
     \<lparr>index = [1, 2],
      data =
        [(Plain ''Close'', [Fin 11, Fin 12]),
         (Plain ''High'', [Fin 12, Fin 13]),
         (Plain ''Low'', [Fin 9, Fin 10]),
         (Plain ''Open'', [Fin 10, Fin 11])]\<rparr>"

section \<open>Properties\<close>

subsection \<open>Decoding\<close>

text \<open>
  C2, as the code has it: the direction code 1 is decoded to the label Up and the code 0
  to the label Down; every code other than 1 is decoded to Down as well, so no code makes
  the decoding fail. The two labels differ.
\<close>

theorem direction_text_lenient:
  "direction_text 1 = up_label \<and> direction_text 0 = down_label
   \<and> (\<forall>code. code \<noteq> 1 \<longrightarrow> direction_text code = down_label)
   \<and> up_label \<noteq> down_label"
  by (simp add: direction_text_def up_label_def down_label_def)

theorem direction_text_lenient_witness:
  "(-3::int) \<noteq> 1 \<and> direction_text (-3) = down_label"
  using direction_text_lenient by simp

text \<open>
  C2 as stated fails: the unrecognised direction code 7 is decoded to the label Down,
  it raises nothing.
\<close>

theorem direction_text_7_is_down: "direction_text 7 = down_label"
  by (simp add: direction_text_def)

text \<open>
  C6: the signal code 0 is decoded to SELL, 1 to HOLD, 2 to BUY, and every other code to
  the label Unknown; the decoding is a total function, it raises for no code.
\<close>

theorem signal_text_total:
  "signal_text 0 = sell_label \<and> signal_text 1 = hold_label \<and> signal_text 2 = buy_label
   \<and> (\<forall>code. code \<notin> {0, 1, 2} \<longrightarrow> signal_text code = ''Unknown'')"
  by (simp add: signal_text_def signal_map_def)

theorem signal_text_total_witness:
  "(9::int) \<notin> {0, 1, 2} \<and> signal_text 9 = ''Unknown''"
  using signal_text_total by simp

subsection \<open>Helper lemmas: the stages one by one\<close>

lemma getitem_Some: "map_of (columns df) name = Some xs \<Longrightarrow> getitem df name = Inr xs"
  by (simp add: getitem_def)

lemma getitem_None: "map_of (columns df) name = None \<Longrightarrow> getitem df name = Inl (UncaughtKeyError [name])"
  by (simp add: getitem_def)

lemma getitem_setitem:
  "getitem (setitem df k v) name = (if name = k then Inr v else getitem df name)"
  by (simp add: getitem_def setitem_def update_conv')

lemma and_then_Inr [simp]: "and_then (Inr x) f = f x"
  by (simp add: and_then_def)

lemma and_then_Inl [simp]: "and_then (Inl e) f = Inl e"
  by (simp add: and_then_def)

lemma feature_engineering_Inr:
  assumes "getitem df0 ''Close'' = Inr cs" "getitem df0 ''High'' = Inr hs"
    "getitem df0 ''Low'' = Inr ls" "getitem df0 ''Open'' = Inr os"
  shows "feature_engineering pd df0 = Inr (engineered pd df0 cs hs ls os)"
  using assms by (simp add: feature_engineering_def engineered_def getitem_setitem Let_def)

lemma feature_engineering_short:
  "feature_engineering pd df0 =
     and_then (getitem df0 ''Close'') (\<lambda>cs.
     and_then (getitem df0 ''High'') (\<lambda>hs.
     and_then (getitem df0 ''Low'') (\<lambda>ls.
     and_then (getitem df0 ''Open'') (\<lambda>os.
     Inr (engineered pd df0 cs hs ls os)))))"
  by (simp add: feature_engineering_def engineered_def getitem_setitem Let_def and_then_def
      split: sum.splits)

lemma feature_engineering_InrD:
  assumes "feature_engineering pd df0 = Inr df"
  obtains cs hs ls os where "getitem df0 ''Close'' = Inr cs" "getitem df0 ''High'' = Inr hs"
    "getitem df0 ''Low'' = Inr ls" "getitem df0 ''Open'' = Inr os"
    "df = engineered pd df0 cs hs ls os"
  using assms unfolding feature_engineering_short
  by (auto simp: and_then_def split: sum.splits)

lemma map_filter_all_Some:
  "(\<forall>x\<in>set xs. f x \<noteq> None) \<Longrightarrow>
     map Some (map g (List.map_filter f xs)) = map (\<lambda>x. map_option g (f x)) xs"
  by (induction xs) (auto split: option.splits)

lemma length_map_filter_all_Some:
  "(\<forall>x\<in>set xs. f x \<noteq> None) \<Longrightarrow> length (List.map_filter f xs) = length xs"
  by (induction xs) (auto split: option.splits)

lemma missing_in_Nil_iff:
  "missing_in df names = [] \<longleftrightarrow> (\<forall>name\<in>set names. map_of (columns df) name \<noteq> None)"
  by (auto simp: missing_in_def filter_empty_conv map_of_eq_None_iff)

lemma dropna_InrD:
  assumes "dropna names df = Inr df'"
  shows "missing_in df names = []"
    and "Date df' = take_rows (kept_rows df names) (Date df)"
    and "columns df' = map (\<lambda>(name, xs). (name, take_rows (kept_rows df names) xs)) (columns df)"
  using assms by (auto simp: dropna_def split: if_splits)

lemma map_of_dropna:
  assumes "dropna names df = Inr df'"
  shows "map_of (columns df') name = map_option (take_rows (kept_rows df names)) (map_of (columns df) name)"
proof -
  have "map_of (map (\<lambda>(name, xs). (name, f xs)) al) name = map_option f (map_of al name)" for f :: "fval list \<Rightarrow> fval list" and al
    by (induction al) auto
  then show ?thesis using dropna_InrD(3)[OF assms] by simp
qed

lemma missing_in_dropna:
  assumes "dropna names df = Inr df'"
  shows "missing_in df' names' = missing_in df names'"
proof -
  have "map fst (columns df') = map fst (columns df)"
    using dropna_InrD(3)[OF assms] by (simp add: case_prod_unfold comp_def)
  then show ?thesis by (simp add: missing_in_def)
qed

lemma select_latest_InrD:
  assumes "select_latest df = Inr (v, d)"
  obtains df' where "missing_cols df = []" "dropna features df = Inr df'" "Date df' \<noteq> []"
    "v = map last (List.map_filter (map_of (columns df')) features)" "d = last (Date df')"
proof -
  from assms have m: "missing_cols df = []"
    by (auto simp: select_latest_def split: if_splits)
  then obtain df' where d: "dropna features df = Inr df'"
    by (auto simp: dropna_def missing_cols_def)
  have mm: "missing_in df' features = []"
    using m missing_in_dropna[OF d] by (simp add: missing_cols_def)
  from assms m d mm have "Date df' \<noteq> []" "v = map last (List.map_filter (map_of (columns df')) features)" "d = last (Date df')"
    by (auto simp: select_latest_def frame_empty_def latest_input_of_def latest_date_of_def iloc_last_def split: if_splits)
  with m d that show thesis by blast
qed

lemma prepare_InrD:
  assumes "prepare pd t = Inr (v, d)"
  obtains df where "\<not> table_empty t" "feature_engineering pd (reset_and_normalise t) = Inr df"
    "select_latest df = Inr (v, d)"
  using assms by (auto simp: prepare_def and_then_def split: if_splits sum.splits)

lemma run_InrD:
  assumes "run pd ms t = Inr out"
  obtains p where "prepare pd t = Inr (latest_input out, latest_date out)"
    "predict_all ms (latest_input out) = Inr p" "predicted out = p"
    "direction_label out = direction_text (pred_direction p)"
    "signal_label out = signal_text (pred_signal p)"
  using assms by (auto simp: run_def and_then_def split: sum.splits prod.splits)

lemma predict_all_Inr_iff:
  "predict_all ms v = Inr p \<longleftrightarrow>
     reg_model ms v = Inr (pred_close p) \<and> clf_model ms v = Inr (pred_direction p)
     \<and> signal_model ms v = Inr (pred_signal p)"
  by (cases p) (auto simp: predict_all_def split: sum.splits)

subsection \<open>Helper lemmas: the example inputs evaluated\<close>

lemmas eval_defs =
  exact_kernels_def getitem_def engineered_def setitem_def select_latest_def missing_cols_def missing_in_def
  features_def dropna_def kept_rows_def row_has_na_def isna_def take_rows_def
  frame_empty_def latest_input_of_def latest_date_of_def iloc_last_def
  rolling_mean_def rolling_std_def trailing_def observations_def
  sample_std_def mean_def upt_rec series_sub_def series_div_def series_times_def

lemma sample_table_not_empty: "\<not> table_empty sample_table"
  by (simp add: table_empty_def sample_table_def)

lemma normalise_sample_table: "reset_and_normalise sample_table = sample_frame"
  unfolding sample_frame_def by code_simp

lemma prepare_sample_table: "prepare exact_kernels sample_table = Inr (sample_latest_input, 12)"
  by (simp add: prepare_def sample_table_not_empty normalise_sample_table sample_frame_def
      sample_latest_input_def feature_engineering_short eval_defs)

lemma run_sample_table:
  "run exact_kernels stub_models sample_table =
     Inr \<lparr>latest_date = 12, latest_input = sample_latest_input,
          predicted = \<lparr>pred_close = Fin 19, pred_direction = 1, pred_signal = 2\<rparr>,
          direction_label = up_label, signal_label = buy_label\<rparr>"
  by (simp add: run_def prepare_sample_table predict_all_def stub_models_def
      sample_latest_input_def direction_text_def signal_text_def signal_map_def)

subsection \<open>The inference step\<close>

text \<open>
  C8: when a run ends with a forecast, the vector handed to the models has exactly ten
  entries, which are the cells of the last row that survived the filter under the names
  Open, High, Low, Volume, Sma_5, Sma_10, Price_Range, Daily_Change_%, Rolling_Std_5 and
  Close/Open, in this order; and each of the three predictions is the answer of its model
  to this one vector.
\<close>

theorem run_feature_vector:
  assumes "run pd ms t = Inr out"
  shows "length (latest_input out) = 10
    \<and> (\<exists>df df'. feature_engineering pd (reset_and_normalise t) = Inr df
          \<and> dropna features df = Inr df'
          \<and> map Some (latest_input out) =
              map (\<lambda>name. map_option last (map_of (columns df') name))
                [''Open'', ''High'', ''Low'', ''Volume'', ''Sma_5'', ''Sma_10'',
                 ''Price_Range'', ''Daily_Change_%'', ''Rolling_Std_5'', ''Close/Open''])
    \<and> reg_model ms (latest_input out) = Inr (pred_close (predicted out))
    \<and> clf_model ms (latest_input out) = Inr (pred_direction (predicted out))
    \<and> signal_model ms (latest_input out) = Inr (pred_signal (predicted out))"
proof -
  from assms obtain p where p: "prepare pd t = Inr (latest_input out, latest_date out)"
    "predict_all ms (latest_input out) = Inr p" "predicted out = p"
    by (rule run_InrD)
  from p(1) obtain df where df: "feature_engineering pd (reset_and_normalise t) = Inr df"
    "select_latest df = Inr (latest_input out, latest_date out)"
    by (rule prepare_InrD)
  from df(2) obtain df' where df': "missing_cols df = []" "dropna features df = Inr df'"
    "latest_input out = map last (List.map_filter (map_of (columns df')) features)"
    by (rule select_latest_InrD)
  have "missing_in df' features = []"
    using df'(1) missing_in_dropna[OF df'(2), of features] by (simp add: missing_cols_def)
  then have all: "\<forall>name\<in>set features. map_of (columns df') name \<noteq> None"
    by (simp only: missing_in_Nil_iff)
  have len: "length (latest_input out) = 10"
    unfolding df'(3) using length_map_filter_all_Some[OF all] by (simp add: features_def)
  have vec: "map Some (latest_input out) =
      map (\<lambda>name. map_option last (map_of (columns df') name)) features"
    unfolding df'(3) by (rule map_filter_all_Some[OF all])
  from p(2,3) have models: "reg_model ms (latest_input out) = Inr (pred_close (predicted out))"
    "clf_model ms (latest_input out) = Inr (pred_direction (predicted out))"
    "signal_model ms (latest_input out) = Inr (pred_signal (predicted out))"
    by (simp_all add: predict_all_Inr_iff)
  from len df(1) df'(2) vec models show ?thesis
    unfolding features_def by blast
qed

theorem run_feature_vector_witness:
  "run exact_kernels stub_models sample_table =
     Inr \<lparr>latest_date = 12, latest_input = sample_latest_input,
          predicted = \<lparr>pred_close = Fin 19, pred_direction = 1, pred_signal = 2\<rparr>,
          direction_label = up_label, signal_label = buy_label\<rparr>
   \<and> length sample_latest_input = 10
   \<and> reg_model stub_models sample_latest_input = Inr (Fin 19)
   \<and> clf_model stub_models sample_latest_input = Inr 1
   \<and> signal_model stub_models sample_latest_input = Inr 2"
  using run_feature_vector [OF run_sample_table] run_sample_table by simp

text \<open>
  C9: once the latest row is selected, a failure of any of the three model calls makes the
  whole run fail with the inference error that carries the message of the first failing
  call; a forecast is produced exactly when all three calls succeed, so there is no partial
  result.
\<close>

theorem predict_all_or_nothing:
  assumes "prepare pd t = Inr (v, d)"
  shows "(\<forall>e. reg_model ms v = Inl e \<longrightarrow> run pd ms t = Inl (InferenceError e))
    \<and> (\<forall>e c. reg_model ms v = Inr c \<and> clf_model ms v = Inl e
          \<longrightarrow> run pd ms t = Inl (InferenceError e))
    \<and> (\<forall>e c k. reg_model ms v = Inr c \<and> clf_model ms v = Inr k \<and> signal_model ms v = Inl e
          \<longrightarrow> run pd ms t = Inl (InferenceError e))
    \<and> ((\<exists>out. run pd ms t = Inr out) \<longleftrightarrow>
          (\<exists>c k s. reg_model ms v = Inr c \<and> clf_model ms v = Inr k \<and> signal_model ms v = Inr s))"
  using assms
  by (auto simp: run_def predict_all_def and_then_def split: sum.splits)

theorem predict_all_or_nothing_witness:
  "prepare exact_kernels sample_table = Inr (sample_latest_input, 12)
   \<and> reg_model failing_models sample_latest_input = Inr (Fin 19)
   \<and> clf_model failing_models sample_latest_input = Inl ''bad input shape''
   \<and> run exact_kernels failing_models sample_table = Inl (InferenceError ''bad input shape'')"
proof -
  have r: "reg_model failing_models sample_latest_input = Inr (Fin 19)"
    by (simp add: failing_models_def stub_models_def sample_latest_input_def)
  have c: "clf_model failing_models sample_latest_input = Inl ''bad input shape''"
    by (simp add: failing_models_def)
  from predict_all_or_nothing [OF prepare_sample_table, of failing_models] r c
  have "run exact_kernels failing_models sample_table = Inl (InferenceError ''bad input shape'')"
    by blast
  with r c prepare_sample_table show ?thesis by simp
qed

subsection \<open>Column names and the schema check\<close>

text \<open>
  C7 at a table without the column Open: the names are normalised first, but line 42
  raises a KeyError that nothing catches, before the check of line 54 is reached; the
  run does not end with the error for missing columns. A table that lacks only Volume,
  which no arithmetic reads, does reach the check.
\<close>

theorem missing_open_raises_key_error:
  "run exact_kernels stub_models no_open_table = Inl (UncaughtKeyError [''Open''])
   \<and> run exact_kernels stub_models no_volume_table = Inl (SchemaError [''Volume''])"
proof -
  have "reset_and_normalise no_open_table =
      \<lparr>Date = [1, 2], columns = [(''Close'', [Fin 11, Fin 12]), (''High'', [Fin 12, Fin 13]),
         (''Low'', [Fin 9, Fin 10]), (''Volume'', [Fin 0, Fin 0])]\<rparr>"
    by code_simp
  then have a: "prepare exact_kernels no_open_table = Inl (UncaughtKeyError [''Open''])"
    by (simp add: prepare_def table_empty_def no_open_table_def feature_engineering_short
        getitem_def)
  have "reset_and_normalise no_volume_table =
      \<lparr>Date = [1, 2], columns = [(''Close'', [Fin 11, Fin 12]), (''High'', [Fin 12, Fin 13]),
         (''Low'', [Fin 9, Fin 10]), (''Open'', [Fin 10, Fin 11])]\<rparr>"
    by code_simp
  then have b: "prepare exact_kernels no_volume_table = Inl (SchemaError [''Volume''])"
    by (simp add: prepare_def table_empty_def no_volume_table_def feature_engineering_short
        eval_defs)
  from a b show ?thesis by (simp add: run_def)
qed

subsection \<open>Helper lemmas: rolling windows\<close>

lemma observations_Fin [simp]: "observations (map Fin ws) = ws"
  by (induction ws) (simp_all add: observations_def)

lemma length_observations_le: "length (observations win) \<le> length win"
  by (induction win) (auto simp: observations_def split: fval.splits)



lemma length_trailing: "i < length xs \<Longrightarrow> length (trailing w xs i) = min w (Suc i)"
  by (simp add: trailing_def)

lemma rolling_mean_nth:
  "i < length xs \<Longrightarrow>
     rolling_mean pd w xs ! i =
       (if w \<le> length (observations (trailing w xs i))
        then roll_mean pd w xs i else NaN)"
  by (simp add: rolling_mean_def Let_def)


lemma length_rolling_mean [simp]: "length (rolling_mean pd w xs) = length xs"
  by (simp add: rolling_mean_def)

lemma length_rolling_std [simp]: "length (rolling_std pd w xs) = length xs"
  by (simp add: rolling_std_def)

lemma rolling_mean_short:
  assumes "i < length xs" "Suc i < w"
  shows "rolling_mean pd w xs ! i = NaN"
proof -
  have "length (observations (trailing w xs i)) \<le> Suc i"
    using length_observations_le[of "trailing w xs i"] length_trailing[OF assms(1), of w] by simp
  with assms show ?thesis by (simp add: rolling_mean_nth)
qed









lemma map_of_engineered:
  "map_of (columns (engineered pd df0 cs hs ls os)) =
     (map_of (columns df0))
       (''Sma_5'' \<mapsto> rolling_mean pd 5 cs,
        ''Sma_10'' \<mapsto> rolling_mean pd 10 cs,
        ''Price_Range'' \<mapsto> series_sub hs ls,
        ''Daily_Change_%'' \<mapsto> series_times (series_div (series_sub cs os) os) 100,
        ''Rolling_Std_5'' \<mapsto> rolling_std pd 5 cs,
        ''Close/Open'' \<mapsto> series_div cs os)"
  by (simp add: engineered_def setitem_def update_conv')

lemma cell_engineered:
  "cell (engineered pd df0 cs hs ls os) ''Sma_5'' i = Some (rolling_mean pd 5 cs ! i)"
  "cell (engineered pd df0 cs hs ls os) ''Sma_10'' i = Some (rolling_mean pd 10 cs ! i)"
  "cell (engineered pd df0 cs hs ls os) ''Price_Range'' i = Some (series_sub hs ls ! i)"
  "cell (engineered pd df0 cs hs ls os) ''Daily_Change_%'' i =
     Some (series_times (series_div (series_sub cs os) os) 100 ! i)"
  "cell (engineered pd df0 cs hs ls os) ''Rolling_Std_5'' i = Some (rolling_std pd 5 cs ! i)"
  "cell (engineered pd df0 cs hs ls os) ''Close/Open'' i = Some (series_div cs os ! i)"
  by (simp_all add: cell_def map_of_engineered)



subsection \<open>The rolling features\<close>




subsection \<open>Helper lemmas: the row filter\<close>

lemma row_has_na_iff_aux:
  "(\<forall>name\<in>set names. map_of al name \<noteq> None) \<Longrightarrow>
     list_ex (\<lambda>name. case map_of al name of Some xs \<Rightarrow> isna (xs ! i) | None \<Rightarrow> False) names
       \<longleftrightarrow> NaN \<in> set (map (\<lambda>xs. xs ! i) (List.map_filter (map_of al) names))"
  by (induction names) (auto simp: isna_def split: option.splits)

lemma row_has_na_iff:
  "missing_cols df = [] \<Longrightarrow> row_has_na df features i \<longleftrightarrow> NaN \<in> set (feature_row df i)"
  unfolding row_has_na_def feature_row_def missing_cols_def missing_in_Nil_iff
  by (rule row_has_na_iff_aux)

lemma kept_rows_eq:
  "missing_cols df = [] \<Longrightarrow>
     kept_rows df features = filter (\<lambda>i. NaN \<notin> set (feature_row df i)) [0..<length (Date df)]"
  by (simp add: kept_rows_def row_has_na_iff)

lemma map_filter_map_option:
  "List.map_filter (\<lambda>x. map_option f (g x)) xs = map f (List.map_filter g xs)"
  by (induction xs) (auto split: option.splits)

lemma map_of_dropna_fun:
  assumes "dropna names df = Inr df'"
  shows "map_of (columns df') =
     (\<lambda>name. map_option (take_rows (kept_rows df names)) (map_of (columns df) name))"
  by (rule ext) (rule map_of_dropna[OF assms])

lemma feature_row_dropna:
  assumes "dropna features df = Inr df'" and "j < length (kept_rows df features)"
  shows "feature_row df' j = feature_row df (kept_rows df features ! j)"
  using assms(2)
  by (simp add: feature_row_def map_of_dropna_fun[OF assms(1)] map_filter_map_option take_rows_def)

lemma latest_input_dropna:
  assumes "dropna features df = Inr df'" and "kept_rows df features \<noteq> []"
  shows "map last (List.map_filter (map_of (columns df')) features)
     = feature_row df (last (kept_rows df features))"
  using assms(2)
  by (simp add: feature_row_def map_of_dropna_fun[OF assms(1)] map_filter_map_option take_rows_def
      last_map)

lemma select_latest_eq:
  assumes "missing_cols df = []"
  shows "select_latest df =
     (if kept_rows df features = [] then Inl InsufficientDataError
      else Inr (feature_row df (last (kept_rows df features)),
                Date df ! last (kept_rows df features)))"
proof -
  from assms obtain df' where d: "dropna features df = Inr df'"
    by (auto simp: dropna_def missing_cols_def)
  have m: "missing_in df' features = []"
    using assms missing_in_dropna[OF d] by (simp add: missing_cols_def)
  have dt: "Date df' = take_rows (kept_rows df features) (Date df)"
    by (rule dropna_InrD(2)[OF d])
  show ?thesis
  proof (cases "kept_rows df features = []")
    case True
    with assms d dt show ?thesis
      by (simp add: select_latest_def frame_empty_def take_rows_def)
  next
    case False
    with assms d dt m latest_input_dropna[OF d False] show ?thesis
      by (simp add: select_latest_def frame_empty_def take_rows_def latest_input_of_def
          latest_date_of_def iloc_last_def last_map)
  qed
qed

lemma filter_upt_last_max:
  assumes "filter P [0..<n] \<noteq> []"
  shows "last (filter P [0..<n]) < n" and "P (last (filter P [0..<n]))"
    and "\<forall>j<n. P j \<longrightarrow> j \<le> last (filter P [0..<n])"
proof -
  let ?K = "filter P [0..<n]"
  have mem: "last ?K \<in> set ?K" using assms by (rule last_in_set)
  then show "last ?K < n" and "P (last ?K)" by auto
  have s: "sorted ?K" by (simp add: sorted_wrt_filter)
  show "\<forall>j<n. P j \<longrightarrow> j \<le> last ?K"
  proof (intro allI impI)
    fix j assume "j < n" "P j"
    then have "j \<in> set ?K" by simp
    then obtain k where k: "k < length ?K" "?K ! k = j" by (metis in_set_conv_nth)
    have "?K ! k \<le> ?K ! (length ?K - 1)"
      using s k(1) by (intro sorted_nth_mono) auto
    with k assms show "j \<le> last ?K" by (simp add: last_conv_nth)
  qed
qed

lemma kept_dates_max:
  assumes "sorted_wrt (<) (ds :: int list)" and "filter P [0..<length ds] \<noteq> []"
  shows "ds ! last (filter P [0..<length ds]) = Max (set (map (\<lambda>i. ds ! i) (filter P [0..<length ds])))"
proof -
  let ?K = "filter P [0..<length ds]"
  let ?i = "last ?K"
  note l = filter_upt_last_max[OF assms(2)]
  have "Max (set (map (\<lambda>i. ds ! i) ?K)) = ds ! ?i"
  proof (rule Max_eqI)
    show "finite (set (map (\<lambda>i. ds ! i) ?K))" by simp
    have "?i \<in> set ?K" using assms(2) by (rule last_in_set)
    then show "ds ! ?i \<in> set (map (\<lambda>i. ds ! i) ?K)" by (simp only: set_map image_eqI)
    fix y assume "y \<in> set (map (\<lambda>i. ds ! i) ?K)"
    then obtain j where j: "j < length ds" "P j" "y = ds ! j" by auto
    with l(3) have "j \<le> ?i" by simp
    then have "j = ?i \<or> j < ?i" by auto
    then show "y \<le> ds ! ?i"
    proof
      assume "j = ?i" with j show ?thesis by simp
    next
      assume "j < ?i"
      from sorted_wrt_nth_less[OF assms(1) this l(1)] j show ?thesis by simp
    qed
  qed
  then show ?thesis by simp
qed

lemma rows_dropna:
  assumes "dropna features df = Inr df'"
  shows "map (feature_row df') [0..<length (kept_rows df features)]
     = map (feature_row df) (kept_rows df features)"
proof (rule nth_equalityI)
  show "length (map (feature_row df') [0..<length (kept_rows df features)])
      = length (map (feature_row df) (kept_rows df features))" by simp
  fix j assume "j < length (map (feature_row df') [0..<length (kept_rows df features)])"
  then have j: "j < length (kept_rows df features)" by simp
  from feature_row_dropna[OF assms j] j
  show "map (feature_row df') [0..<length (kept_rows df features)] ! j
      = map (feature_row df) (kept_rows df features) ! j" by simp
qed

lemma gappy_frame_facts:
  "wf_frame gappy_frame" "missing_cols gappy_frame = []" "sorted_wrt (<) (Date gappy_frame)"
  by (simp_all add: wf_frame_def gappy_frame_def missing_cols_def missing_in_def features_def)

lemma gappy_frame_rows:
  "filter (\<lambda>i. NaN \<notin> set (feature_row gappy_frame i)) [0..<length (Date gappy_frame)] = [1, 2]"
  by (simp add: gappy_frame_def feature_row_def features_def upt_rec)

lemma gappy_frame_values:
  "map (\<lambda>i. Date gappy_frame ! i) [1, 2] = [4, 5]"
  "map (feature_row gappy_frame) [1, 2] =
     [[Fin 11, Fin 13, Fin 10, Fin 7, Fin 10, Fin 8, Fin 3, Fin 9, Fin 1, Fin 2],
      [Fin 12, Fin 14, Fin 11, Fin 7, Fin 11, Fin 9, Fin 3, Fin 8, Fin 1, Fin 2]]"
  by (simp_all add: gappy_frame_def feature_row_def features_def)

subsection \<open>Selecting the latest row\<close>

text \<open>
  C4: for a rectangular frame that has every feature column and strictly ascending
  dates, \<open>dropna\<close> keeps, in their order, exactly the rows with no NaN under the ten
  feature names (their dates and their feature values are those of the kept rows of the
  input). When no row is left the selection stops with the error for insufficient data;
  when a row is left it returns the last remaining row with its date, and this date is the
  greatest of the remaining dates.
\<close>

theorem select_latest_correct:
  assumes "wf_frame df" and "missing_cols df = []" and "sorted_wrt (<) (Date df)"
  shows "\<exists>df'. dropna features df = Inr df'
    \<and> Date df' = map (\<lambda>i. Date df ! i)
        (filter (\<lambda>i. NaN \<notin> set (feature_row df i)) [0..<length (Date df)])
    \<and> map (feature_row df') [0..<length (Date df')] = map (feature_row df)
        (filter (\<lambda>i. NaN \<notin> set (feature_row df i)) [0..<length (Date df)])
    \<and> (Date df' = [] \<longrightarrow> select_latest df = Inl InsufficientDataError)
    \<and> (Date df' \<noteq> [] \<longrightarrow>
          select_latest df = Inr (feature_row df' (length (Date df') - 1), last (Date df'))
          \<and> last (Date df') = Max (set (Date df')))"
proof -
  define K where "K = kept_rows df features"
  have K: "K = filter (\<lambda>i. NaN \<notin> set (feature_row df i)) [0..<length (Date df)]"
    unfolding K_def by (rule kept_rows_eq[OF assms(2)])
  from assms(2) obtain df' where d: "dropna features df = Inr df'"
    by (auto simp: dropna_def missing_cols_def)
  have dates: "Date df' = map (\<lambda>i. Date df ! i) K"
    using dropna_InrD(2)[OF d] by (simp add: K_def take_rows_def)
  have len: "length (Date df') = length K" by (simp add: dates)
  have rows: "map (feature_row df') [0..<length (Date df')] = map (feature_row df) K"
    unfolding len K_def by (rule rows_dropna[OF d])
  have sel: "select_latest df =
      (if K = [] then Inl InsufficientDataError
       else Inr (feature_row df (last K), Date df ! last K))"
    unfolding K_def by (rule select_latest_eq[OF assms(2)])
  have empty: "Date df' = [] \<longrightarrow> select_latest df = Inl InsufficientDataError"
    by (simp add: sel dates)
  have latest: "select_latest df = Inr (feature_row df' (length (Date df') - 1), last (Date df'))
      \<and> last (Date df') = Max (set (Date df'))" if "Date df' \<noteq> []"
  proof -
    from that have ne: "K \<noteq> []" by (simp add: dates)
    then have lt: "length K - 1 < length K" by simp
    have "feature_row df' (length K - 1) = feature_row df (K ! (length K - 1))"
      using feature_row_dropna[OF d] lt unfolding K_def by blast
    then have r: "feature_row df' (length (Date df') - 1) = feature_row df (last K)"
      using ne by (simp add: len last_conv_nth)
    have l: "last (Date df') = Date df ! last K"
      using ne by (simp add: dates last_map)
    have "Date df ! last K = Max (set (map (\<lambda>i. Date df ! i) K))"
      using kept_dates_max[OF assms(3)] ne unfolding K by blast
    then have m: "last (Date df') = Max (set (Date df'))"
      unfolding l by (simp only: dates)
    from sel ne r l m show ?thesis by simp
  qed
  from d dates[unfolded K] rows[unfolded K] empty latest show ?thesis by blast
qed

theorem select_latest_correct_witness:
  "wf_frame gappy_frame \<and> missing_cols gappy_frame = [] \<and> sorted_wrt (<) (Date gappy_frame)
   \<and> (\<exists>df'. dropna features gappy_frame = Inr df' \<and> Date df' = [4, 5]
        \<and> select_latest gappy_frame =
            Inr ([Fin 12, Fin 14, Fin 11, Fin 7, Fin 11, Fin 9, Fin 3, Fin 8, Fin 1, Fin 2], 5))"
proof -
  from select_latest_correct [OF gappy_frame_facts]
  obtain df' where all: "dropna features gappy_frame = Inr df'
    \<and> Date df' = [4, 5]
    \<and> map (feature_row df') [0..<length (Date df')] =
       [[Fin 11, Fin 13, Fin 10, Fin 7, Fin 10, Fin 8, Fin 3, Fin 9, Fin 1, Fin 2],
        [Fin 12, Fin 14, Fin 11, Fin 7, Fin 11, Fin 9, Fin 3, Fin 8, Fin 1, Fin 2]]
    \<and> (Date df' = [] \<longrightarrow> select_latest gappy_frame = Inl InsufficientDataError)
    \<and> (Date df' \<noteq> [] \<longrightarrow>
       select_latest gappy_frame = Inr (feature_row df' (length (Date df') - 1), last (Date df'))
       \<and> last (Date df') = Max (set (Date df')))"
    unfolding gappy_frame_rows gappy_frame_values ..
  then have d: "dropna features gappy_frame = Inr df'" and dates: "Date df' = [4, 5]"
    by simp_all
  from all have rows: "map (feature_row df') [0..<length (Date df')] =
       [[Fin 11, Fin 13, Fin 10, Fin 7, Fin 10, Fin 8, Fin 3, Fin 9, Fin 1, Fin 2],
        [Fin 12, Fin 14, Fin 11, Fin 7, Fin 11, Fin 9, Fin 3, Fin 8, Fin 1, Fin 2]]"
    by (elim conjE)
  from all have latest: "Date df' \<noteq> [] \<longrightarrow>
       select_latest gappy_frame = Inr (feature_row df' (length (Date df') - 1), last (Date df'))
       \<and> last (Date df') = Max (set (Date df'))"
    by (elim conjE)
  from rows have "feature_row df' 1 =
      [Fin 12, Fin 14, Fin 11, Fin 7, Fin 11, Fin 9, Fin 3, Fin 8, Fin 1, Fin 2]"
    by (simp add: dates upt_rec)
  with latest have "select_latest gappy_frame =
      Inr ([Fin 12, Fin 14, Fin 11, Fin 7, Fin 11, Fin 9, Fin 3, Fin 8, Fin 1, Fin 2], 5)"
    by (simp add: dates)
  with d dates gappy_frame_facts show ?thesis by blast
qed

subsection \<open>Helper lemmas: the engineered frame\<close>

lemma set_map_filter_conv:
  "set (List.map_filter f xs) = {y. \<exists>x\<in>set xs. f x = Some y}"
  by (induction xs) (auto split: option.splits)

lemma feature_row_NaN_iff:
  "NaN \<in> set (feature_row df i) \<longleftrightarrow> (\<exists>name\<in>set features. cell df name i = Some NaN)"
  unfolding feature_row_def cell_def set_map set_map_filter_conv
  by (force simp: image_iff)

lemma series_sub_nth:
  "i < length a \<Longrightarrow> i < length b \<Longrightarrow> series_sub a b ! i = fsub (a ! i) (b ! i)"
  by (simp add: series_sub_def)

lemma series_div_nth:
  "i < length a \<Longrightarrow> i < length b \<Longrightarrow> series_div a b ! i = fdiv (a ! i) (b ! i)"
  by (simp add: series_div_def)

lemma series_times_nth:
  "i < length a \<Longrightarrow> series_times a k ! i = fmul (a ! i) (Fin k)"
  by (simp add: series_times_def)

lemma length_series [simp]:
  "length (series_sub a b) = min (length a) (length b)"
  "length (series_div a b) = min (length a) (length b)"
  "length (series_times a k) = length a"
  by (simp_all add: series_sub_def series_div_def series_times_def)

lemma wf_frame_length:
  assumes "wf_frame df" and "getitem df name = Inr xs"
  shows "length xs = length (Date df)"
proof -
  from assms(2) have "map_of (columns df) name = Some xs"
    by (auto simp: getitem_def split: option.splits)
  then have "(name, xs) \<in> set (columns df)" by (rule map_of_SomeD)
  with assms(1) show ?thesis by (auto simp: wf_frame_def list_all_iff)
qed

lemma Date_engineered [simp]: "Date (engineered pd df0 cs hs ls os) = Date df0"
  by (simp add: engineered_def setitem_def)

lemma cell_engineered_raw:
  "name \<notin> {''Sma_5'', ''Sma_10'', ''Price_Range'', ''Daily_Change_%'', ''Rolling_Std_5'',
      ''Close/Open''} \<Longrightarrow>
   cell (engineered pd df0 cs hs ls os) name i = cell df0 name i"
  by (simp add: cell_def map_of_engineered)

lemma cell_getitem: "getitem df name = Inr xs \<Longrightarrow> cell df name i = Some (xs ! i)"
  by (auto simp: getitem_def cell_def split: option.splits)

lemma wf_frame_engineered:
  assumes "wf_frame df0" and "getitem df0 ''Close'' = Inr cs" and "getitem df0 ''High'' = Inr hs"
    and "getitem df0 ''Low'' = Inr ls" and "getitem df0 ''Open'' = Inr os"
  shows "wf_frame (engineered pd df0 cs hs ls os)"
proof -
  note len = wf_frame_length[OF assms(1)]
  have upd: "list_all (\<lambda>(name, xs). length xs = n) (AList.update k v al)"
    if "list_all (\<lambda>(name, xs). length xs = n) al" "length v = n"
    for n k and v :: "fval list" and al :: "(string \<times> fval list) list"
    using that by (induction al) auto
  from assms(1) have "list_all (\<lambda>(name, xs). length xs = length (Date df0)) (columns df0)"
    and "distinct (map fst (columns df0))"
    by (simp_all add: wf_frame_def)
  then show ?thesis
    unfolding wf_frame_def engineered_def setitem_def
    by (simp add: upd distinct_update len[OF assms(2)] len[OF assms(3)] len[OF assms(4)]
        len[OF assms(5)])
qed

lemma missing_cols_engineered:
  assumes "getitem df0 ''High'' = Inr hs" and "getitem df0 ''Low'' = Inr ls"
    and "getitem df0 ''Open'' = Inr os"
  shows "missing_cols (engineered pd df0 cs hs ls os) = []
     \<longleftrightarrow> map_of (columns df0) ''Volume'' \<noteq> None"
  using assms
  by (auto simp: missing_cols_def missing_in_Nil_iff features_def map_of_engineered getitem_def
      split: option.splits)






lemma Date_reset_and_normalise [simp]: "Date (reset_and_normalise t) = index t"
  by (simp add: reset_and_normalise_def)

lemma predict_all_not_insufficient: "predict_all ms v \<noteq> Inl InsufficientDataError"
  by (simp add: predict_all_def split: sum.splits)

lemma run_insufficient_iff:
  "run pd ms t = Inl InsufficientDataError \<longleftrightarrow> prepare pd t = Inl InsufficientDataError"
proof (cases "prepare pd t")
  case (Inl e)
  then show ?thesis by (simp add: run_def)
next
  case (Inr p)
  obtain v d where "p = (v, d)" by (cases p)
  with Inr show ?thesis
    using predict_all_not_insufficient[of ms v]
    by (cases "predict_all ms v") (simp_all add: run_def)
qed

lemma insufficient_data_aux:
  assumes "\<not> table_empty t" and "feature_engineering pd (reset_and_normalise t) = Inr df"
    and "missing_cols df = []"
  shows "(run pd ms t = Inl InsufficientDataError
            \<longleftrightarrow> (\<forall>i<length (index t). NaN \<in> set (feature_row df i)))
    \<and> (wf_frame (reset_and_normalise t) \<and> length (index t) < 10
          \<longrightarrow> run pd ms t = Inl InsufficientDataError)"
proof -
  from assms(2) obtain cs hs ls os where
    cs: "getitem (reset_and_normalise t) ''Close'' = Inr cs"
    and df: "df = engineered pd (reset_and_normalise t) cs hs ls os"
    by (rule feature_engineering_InrD)
  have n: "length (Date df) = length (index t)" by (simp add: df)
  have p: "prepare pd t = select_latest df"
    using assms(1,2) by (simp add: prepare_def)
  have iff: "run pd ms t = Inl InsufficientDataError
      \<longleftrightarrow> (\<forall>i<length (index t). NaN \<in> set (feature_row df i))"
    unfolding run_insufficient_iff p select_latest_eq[OF assms(3)] kept_rows_eq[OF assms(3)] n
    by (auto simp: filter_empty_conv)
  have short: "run pd ms t = Inl InsufficientDataError"
    if wf: "wf_frame (reset_and_normalise t)" and len: "length (index t) < 10"
  proof -
    have "NaN \<in> set (feature_row df i)" if "i < length (index t)" for i
    proof -
      from wf_frame_length[OF wf cs] have "length cs = length (index t)" by simp
      with that len have "rolling_mean pd 10 cs ! i = NaN"
        by (intro rolling_mean_short) simp_all
      then have "cell df ''Sma_10'' i = Some NaN" by (simp add: df cell_engineered)
      moreover have "''Sma_10'' \<in> set features" by (simp add: features_def)
      ultimately show ?thesis unfolding feature_row_NaN_iff by blast
    qed
    with iff show ?thesis by simp
  qed
  from iff short show ?thesis by blast
qed

lemma normalise_short_table: "reset_and_normalise short_table = short_frame"
  unfolding short_frame_def by code_simp

subsection \<open>Not enough data\<close>

text \<open>
  C5, as the code has it. A run on an empty table stops at line 27 with the provider
  error. A run on a table that is not empty, whose feature engineering succeeds and
  which has every feature column, ends with the error for insufficient data exactly when
  every row has a NaN under some feature name, that is when no row is left by the filter;
  this is the case for every rectangular table of fewer than 10 rows. The result is then
  this one error and no forecast, whatever the models are.
\<close>

theorem insufficient_data:
  "(table_empty t \<longrightarrow> run pd ms t = Inl ProviderError)
   \<and> (\<not> table_empty t \<and> feature_engineering pd (reset_and_normalise t) = Inr df
        \<and> missing_cols df = [] \<longrightarrow>
        (run pd ms t = Inl InsufficientDataError
           \<longleftrightarrow> (\<forall>i<length (index t). NaN \<in> set (feature_row df i)))
        \<and> (wf_frame (reset_and_normalise t) \<and> length (index t) < 10
             \<longrightarrow> run pd ms t = Inl InsufficientDataError))"
proof (intro conjI impI)
  assume "table_empty t"
  then show "run pd ms t = Inl ProviderError" by (simp add: run_def prepare_def)
next
  assume a: "\<not> table_empty t \<and> feature_engineering pd (reset_and_normalise t) = Inr df
    \<and> missing_cols df = []"
  then have *: "\<not> table_empty t" "feature_engineering pd (reset_and_normalise t) = Inr df"
    "missing_cols df = []" by simp_all
  from insufficient_data_aux[OF *, of ms]
  show "run pd ms t = Inl InsufficientDataError
      \<longleftrightarrow> (\<forall>i<length (index t). NaN \<in> set (feature_row df i))" by blast
  assume "wf_frame (reset_and_normalise t) \<and> length (index t) < 10"
  with insufficient_data_aux[OF *, of ms]
  show "run pd ms t = Inl InsufficientDataError" by blast
qed

theorem insufficient_data_witness:
  "\<not> table_empty short_table
   \<and> feature_engineering exact_kernels (reset_and_normalise short_table)
       = Inr (engineered exact_kernels short_frame [Fin 11, Fin 12, Fin 13] [Fin 12, Fin 13, Fin 14]
               [Fin 9, Fin 10, Fin 11] [Fin 10, Fin 11, Fin 12])
   \<and> wf_frame (reset_and_normalise short_table) \<and> length (index short_table) < 10
   \<and> run exact_kernels stub_models short_table = Inl InsufficientDataError"
proof -
  have ne: "\<not> table_empty short_table"
    by (simp add: table_empty_def short_table_def)
  have fe: "feature_engineering exact_kernels (reset_and_normalise short_table)
       = Inr (engineered exact_kernels short_frame [Fin 11, Fin 12, Fin 13] [Fin 12, Fin 13, Fin 14]
               [Fin 9, Fin 10, Fin 11] [Fin 10, Fin 11, Fin 12])"
    unfolding normalise_short_table
    by (rule feature_engineering_Inr) (simp_all add: getitem_def short_frame_def)
  have mc: "missing_cols (engineered exact_kernels short_frame [Fin 11, Fin 12, Fin 13] [Fin 12, Fin 13, Fin 14]
               [Fin 9, Fin 10, Fin 11] [Fin 10, Fin 11, Fin 12]) = []"
    by (simp add: missing_cols_def missing_in_Nil_iff features_def map_of_engineered
        short_frame_def)
  have wf: "wf_frame (reset_and_normalise short_table)"
    unfolding normalise_short_table by (simp add: wf_frame_def short_frame_def)
  have len: "length (index short_table) < 10" by (simp add: short_table_def)
  from insufficient_data [of short_table exact_kernels stub_models] ne fe mc wf len
  have "run exact_kernels stub_models short_table = Inl InsufficientDataError" by blast
  with ne fe wf len show ?thesis by blast
qed

text \<open>
  C5 as stated fails for the empty series: no row is left, and the run ends with the
  provider error of line 28, not with the error for insufficient data.
\<close>

theorem empty_table_is_provider_error: "run exact_kernels stub_models empty_table = Inl ProviderError"
  by (simp add: run_def prepare_def table_empty_def empty_table_def)

subsection \<open>Helper lemmas: rows of the engineered frame\<close>






subsection \<open>A complete series\<close>




subsection \<open>Helper lemmas: division by an open of zero\<close>

lemma division_by_zero_open:
  "fdiv c (Fin 0) = NaN \<longleftrightarrow> c = NaN \<or> c = Fin 0"
  "fmul (fdiv (fsub c (Fin 0)) (Fin 0)) (Fin 100) = NaN \<longleftrightarrow> c = NaN \<or> c = Fin 0"
  "c \<noteq> NaN \<Longrightarrow> c \<noteq> Fin 0 \<Longrightarrow> fdiv c (Fin 0) \<in> {PInf, NInf}"
  "c \<noteq> NaN \<Longrightarrow> c \<noteq> Fin 0 \<Longrightarrow> fmul (fdiv (fsub c (Fin 0)) (Fin 0)) (Fin 100) \<in> {PInf, NInf}"
  by (cases c; simp)+

lemma select_latest_only_row:
  assumes mc: "missing_cols df = []" and i: "i < length (Date df)"
    and others: "\<forall>j<length (Date df). j \<noteq> i \<longrightarrow> NaN \<in> set (feature_row df j)"
  shows "select_latest df =
     (if NaN \<in> set (feature_row df i) then Inl InsufficientDataError
      else Inr (feature_row df i, Date df ! i))"
proof -
  let ?P = "\<lambda>i. NaN \<notin> set (feature_row df i)"
  let ?K = "filter ?P [0..<length (Date df)]"
  note sel = select_latest_eq[OF mc, unfolded kept_rows_eq[OF mc]]
  show ?thesis
  proof (cases "NaN \<in> set (feature_row df i)")
    case True
    with others have "?K = []" by (auto simp: filter_empty_conv)
    with True sel show ?thesis by simp
  next
    case False
    with i have ne: "?K \<noteq> []" by (auto simp: filter_empty_conv)
    from filter_upt_last_max(1,2)[OF ne] others have "last ?K = i" by blast
    with False ne sel show ?thesis by simp
  qed
qed

lemma zero_open_frame_facts:
  "wf_frame zero_open_frame"
  "feature_engineering exact_kernels zero_open_frame = Inr zero_open_features"
  "missing_cols zero_open_features = []"
  "getitem zero_open_frame ''Open'' = Inr (map Fin [10, 11, 12, 13, 14, 15, 16, 17, 18, 0])"
  "getitem zero_open_frame ''Close'' = Inr (map Fin [11, 12, 13, 14, 15, 16, 17, 18, 19, 20])"
  "9 < length (Date zero_open_frame)"
  "map Fin [10, 11, 12, 13, 14, 15, 16, 17, 18, 0] ! 9 = Fin 0"
proof -
  show "wf_frame zero_open_frame" by (simp add: wf_frame_def zero_open_frame_def)
  show o: "getitem zero_open_frame ''Open'' = Inr (map Fin [10, 11, 12, 13, 14, 15, 16, 17, 18, 0])"
    and c: "getitem zero_open_frame ''Close'' = Inr (map Fin [11, 12, 13, 14, 15, 16, 17, 18, 19, 20])"
    by (simp_all add: getitem_def zero_open_frame_def)
  have h: "getitem zero_open_frame ''High'' = Inr (map Fin [12, 13, 14, 15, 16, 17, 18, 19, 20, 21])"
    and l: "getitem zero_open_frame ''Low'' = Inr (map Fin [9, 10, 11, 12, 13, 14, 15, 16, 17, 18])"
    by (simp_all add: getitem_def zero_open_frame_def)
  show "feature_engineering exact_kernels zero_open_frame = Inr zero_open_features"
    unfolding zero_open_features_def by (rule feature_engineering_Inr[OF c h l o])
  show "missing_cols zero_open_features = []"
    unfolding zero_open_features_def missing_cols_engineered[OF h l o]
    by (simp add: zero_open_frame_def)
  show "9 < length (Date zero_open_frame)" by (simp add: zero_open_frame_def)
  show "map Fin [10, 11, 12, 13, 14, 15, 16, 17, 18, 0] ! 9 = Fin 0" by simp
qed

lemma zero_open_row_9:
  "feature_row zero_open_features 9 =
     [Fin 0, Fin 21, Fin 18, Fin 0, Fin 18, Fin (31 / 2), Fin 3, PInf, Fin (sqrt (5 / 2)), PInf]"
  by (simp add: zero_open_features_def zero_open_frame_def feature_row_def eval_defs)

lemma normalise_zero_open_table: "reset_and_normalise zero_open_table = zero_open_frame"
  unfolding zero_open_frame_def by code_simp

lemma prepare_zero_open_table:
  "prepare exact_kernels zero_open_table =
     Inr ([Fin 0, Fin 21, Fin 18, Fin 0, Fin 18, Fin (31 / 2), Fin 3, PInf,
           Fin (sqrt (5 / 2)), PInf], 12)"
proof -
  have "\<not> table_empty zero_open_table" by (simp add: table_empty_def zero_open_table_def)
  then show ?thesis
    by (simp add: prepare_def normalise_zero_open_table zero_open_frame_def
        feature_engineering_short eval_defs)
qed

subsection \<open>A row whose open is zero\<close>

text \<open>
  C3, as the code has it. Take a rectangular frame with every feature column and a row
  \<open>i\<close> whose open is 0. When the close of the row is 0 or NaN, Daily_Change_% and
  Close/Open are NaN, the filter drops the row, and when every other row has a NaN too
  the selection stops with the error for insufficient data. When the close is anything
  else, the two features are plus or minus infinity, which is not NaN: the filter keeps
  the row exactly when none of its other eight features is NaN, and when it is kept and
  every other row has a NaN, it is the row that is selected.
\<close>

theorem zero_open_row:
  assumes wf: "wf_frame df0" and fe: "feature_engineering pd df0 = Inr df"
    and mc: "missing_cols df = []"
    and o: "getitem df0 ''Open'' = Inr os" and c: "getitem df0 ''Close'' = Inr cs"
    and i: "i < length (Date df0)" and z: "os ! i = Fin 0"
  shows "(cs ! i = NaN \<or> cs ! i = Fin 0 \<longrightarrow>
            cell df ''Daily_Change_%'' i = Some NaN \<and> cell df ''Close/Open'' i = Some NaN
            \<and> i \<notin> set (kept_rows df features)
            \<and> ((\<forall>j<length (Date df0). j \<noteq> i \<longrightarrow> NaN \<in> set (feature_row df j))
                 \<longrightarrow> select_latest df = Inl InsufficientDataError))
    \<and> (cs ! i \<noteq> NaN \<and> cs ! i \<noteq> Fin 0 \<longrightarrow>
            cell df ''Daily_Change_%'' i \<in> {Some PInf, Some NInf}
            \<and> cell df ''Close/Open'' i \<in> {Some PInf, Some NInf}
            \<and> (i \<in> set (kept_rows df features) \<longleftrightarrow>
                 (\<forall>name\<in>set [''Open'', ''High'', ''Low'', ''Volume'', ''Sma_5'', ''Sma_10'',
                     ''Price_Range'', ''Rolling_Std_5'']. cell df name i \<noteq> Some NaN))
            \<and> (i \<in> set (kept_rows df features)
                 \<and> (\<forall>j<length (Date df0). j \<noteq> i \<longrightarrow> NaN \<in> set (feature_row df j))
                 \<longrightarrow> select_latest df = Inr (feature_row df i, Date df0 ! i)))"
proof -
  from fe obtain cs' hs ls os' where g: "getitem df0 ''Close'' = Inr cs'"
    "getitem df0 ''Open'' = Inr os'" and df': "df = engineered pd df0 cs' hs ls os'"
    by (rule feature_engineering_InrD)
  with o c have df: "df = engineered pd df0 cs hs ls os" by simp
  have D: "Date df = Date df0" by (simp add: df)
  have len: "i < length cs" "i < length os"
    using wf_frame_length[OF wf c] wf_frame_length[OF wf o] i by simp_all
  have co: "cell df ''Close/Open'' i = Some (fdiv (cs ! i) (Fin 0))"
    using len z by (simp add: df cell_engineered series_div_nth)
  have dc: "cell df ''Daily_Change_%'' i
      = Some (fmul (fdiv (fsub (cs ! i) (Fin 0)) (Fin 0)) (Fin 100))"
    using len z by (simp add: df cell_engineered series_div_nth series_sub_nth series_times_nth)
  have kept: "i \<in> set (kept_rows df features) \<longleftrightarrow> NaN \<notin> set (feature_row df i)"
    using i by (simp add: kept_rows_eq[OF mc] D)
  have row: "NaN \<in> set (feature_row df i) \<longleftrightarrow>
      cell df ''Daily_Change_%'' i = Some NaN \<or> cell df ''Close/Open'' i = Some NaN
      \<or> \<not> (\<forall>name\<in>set [''Open'', ''High'', ''Low'', ''Volume'', ''Sma_5'', ''Sma_10'',
             ''Price_Range'', ''Rolling_Std_5'']. cell df name i \<noteq> Some NaN)"
    unfolding feature_row_NaN_iff features_def by auto
  note only = select_latest_only_row[OF mc, unfolded D, OF i]
  have missing: "cell df ''Daily_Change_%'' i = Some NaN \<and> cell df ''Close/Open'' i = Some NaN
      \<and> i \<notin> set (kept_rows df features)
      \<and> ((\<forall>j<length (Date df0). j \<noteq> i \<longrightarrow> NaN \<in> set (feature_row df j))
           \<longrightarrow> select_latest df = Inl InsufficientDataError)"
    if "cs ! i = NaN \<or> cs ! i = Fin 0"
  proof -
    from that have a: "cell df ''Daily_Change_%'' i = Some NaN"
      "cell df ''Close/Open'' i = Some NaN"
      by (simp_all add: co dc division_by_zero_open(1,2))
    then have b: "NaN \<in> set (feature_row df i)" by (simp add: row)
    with a kept only show ?thesis by simp
  qed
  have infinite: "cell df ''Daily_Change_%'' i \<in> {Some PInf, Some NInf}
      \<and> cell df ''Close/Open'' i \<in> {Some PInf, Some NInf}
      \<and> (i \<in> set (kept_rows df features) \<longleftrightarrow>
           (\<forall>name\<in>set [''Open'', ''High'', ''Low'', ''Volume'', ''Sma_5'', ''Sma_10'',
               ''Price_Range'', ''Rolling_Std_5'']. cell df name i \<noteq> Some NaN))
      \<and> (i \<in> set (kept_rows df features)
           \<and> (\<forall>j<length (Date df0). j \<noteq> i \<longrightarrow> NaN \<in> set (feature_row df j))
           \<longrightarrow> select_latest df = Inr (feature_row df i, Date df0 ! i))"
    if "cs ! i \<noteq> NaN \<and> cs ! i \<noteq> Fin 0"
  proof -
    from that division_by_zero_open(3,4)[of "cs ! i"]
    have a: "cell df ''Daily_Change_%'' i \<in> {Some PInf, Some NInf}"
      "cell df ''Close/Open'' i \<in> {Some PInf, Some NInf}"
      by (auto simp: co dc)
    then have n: "cell df ''Daily_Change_%'' i \<noteq> Some NaN"
      "cell df ''Close/Open'' i \<noteq> Some NaN" by auto
    have b: "i \<in> set (kept_rows df features) \<longleftrightarrow>
        (\<forall>name\<in>set [''Open'', ''High'', ''Low'', ''Volume'', ''Sma_5'', ''Sma_10'',
            ''Price_Range'', ''Rolling_Std_5'']. cell df name i \<noteq> Some NaN)"
      unfolding kept row using n by blast
    have c: "select_latest df = Inr (feature_row df i, Date df0 ! i)"
      if "i \<in> set (kept_rows df features)"
        "\<forall>j<length (Date df0). j \<noteq> i \<longrightarrow> NaN \<in> set (feature_row df j)"
      using that only kept by (simp add: D)
    from a b c show ?thesis by blast
  qed
  from missing infinite show ?thesis by blast
qed

theorem zero_open_row_witness:
  "wf_frame zero_open_frame \<and> feature_engineering exact_kernels zero_open_frame = Inr zero_open_features
   \<and> missing_cols zero_open_features = []
   \<and> getitem zero_open_frame ''Open'' = Inr (map Fin [10, 11, 12, 13, 14, 15, 16, 17, 18, 0])
   \<and> getitem zero_open_frame ''Close'' = Inr (map Fin [11, 12, 13, 14, 15, 16, 17, 18, 19, 20])
   \<and> 9 < length (Date zero_open_frame)
   \<and> map Fin [10, 11, 12, 13, 14, 15, 16, 17, 18, 0] ! 9 = Fin 0
   \<and> map Fin [11, 12, 13, 14, 15, 16, 17, 18, 19, 20] ! 9 = Fin 20
   \<and> cell zero_open_features ''Daily_Change_%'' 9 \<in> {Some PInf, Some NInf}
   \<and> cell zero_open_features ''Close/Open'' 9 \<in> {Some PInf, Some NInf}
   \<and> 9 \<in> set (kept_rows zero_open_features features)"
proof -
  have c9: "map Fin [11, 12, 13, 14, 15, 16, 17, 18, 19, 20] ! 9 = Fin 20" by simp
  have "NaN \<notin> set (feature_row zero_open_features 9)" by (simp add: zero_open_row_9)
  then have rest: "\<forall>name\<in>set [''Open'', ''High'', ''Low'', ''Volume'', ''Sma_5'', ''Sma_10'',
      ''Price_Range'', ''Rolling_Std_5'']. cell zero_open_features name 9 \<noteq> Some NaN"
    unfolding feature_row_NaN_iff features_def by simp
  from zero_open_row [OF zero_open_frame_facts] c9 rest
  have "cell zero_open_features ''Daily_Change_%'' 9 \<in> {Some PInf, Some NInf}
    \<and> cell zero_open_features ''Close/Open'' 9 \<in> {Some PInf, Some NInf}
    \<and> 9 \<in> set (kept_rows zero_open_features features)"
    by simp
  with zero_open_frame_facts c9 show ?thesis by simp
qed

text \<open>
  C3 as stated fails: in \<open>zero_open_table\<close> the last row has the open 0 and the close 20
  and is the only row with a full window of ten rows. It is not dropped and the run does
  not stop: it is selected, and the vector handed to the models holds plus infinity for
  Daily_Change_% and for Close/Open.
\<close>

theorem zero_open_row_is_selected:
  "run exact_kernels stub_models zero_open_table =
     Inr \<lparr>latest_date = 12,
          latest_input = [Fin 0, Fin 21, Fin 18, Fin 0, Fin 18, Fin (31 / 2), Fin 3, PInf,
                          Fin (sqrt (5 / 2)), PInf],
          predicted = \<lparr>pred_close = Fin 0, pred_direction = 1, pred_signal = 2\<rparr>,
          direction_label = up_label, signal_label = buy_label\<rparr>"
  by (simp add: run_def prepare_zero_open_table predict_all_def stub_models_def
      direction_text_def signal_text_def signal_map_def)

end
